theory Spec2Isabelle
  imports Complex_Main
begin

section \<open>Numbers, arrays and faults\<close>

text \<open>
  The notebook \<^verbatim>\<open>microplastics_modeling.ipynb\<close> is straight-line arithmetic on
  Python floats and on three-element numpy arrays of float64. This development reads
  every number as an exact rational: a literal such as \<^verbatim>\<open>0.96\<close> is the fraction
  \<open>96/100\<close>, \<^verbatim>\<open>1e5\<close> is \<open>100000\<close>, and \<open>+\<close>, \<open>-\<close>, \<open>*\<close> are exact. The rounding
  of IEEE double arithmetic is not part of the model, so every result below is a
  statement about the formulas the code evaluates, in exact arithmetic.

  Division is the one operation that can go wrong. Python's float division raises
  \<^verbatim>\<open>ZeroDivisionError\<close> on a zero divisor. A numpy float64 division by zero raises
  nothing: it yields \<^verbatim>\<open>nan\<close> or \<^verbatim>\<open>inf\<close> (with a warning) and the cell carries on
  computing with it. The model records both as a fault and stops following the value:
  \<open>Inr v\<close> says that every divisor met so far was nonzero and that the exact value
  is \<open>v\<close>; \<open>Inl NonFinite\<close> says that a float64 division had a zero divisor, so
  that the float the notebook holds is, or is computed from, \<^verbatim>\<open>nan\<close> or \<^verbatim>\<open>inf\<close>.
\<close>

datatype fault = ZeroDivisionError | NonFinite

type_synonym result = "fault + rat"

definition and_then :: "fault + 'a \<Rightarrow> ('a \<Rightarrow> fault + 'b) \<Rightarrow> fault + 'b" where
  "and_then r f = (case r of Inl e \<Rightarrow> Inl e | Inr v \<Rightarrow> f v)"

definition defined :: "fault + 'a \<Rightarrow> bool" where
  "defined r = (case r of Inl e \<Rightarrow> False | Inr v \<Rightarrow> True)"

text \<open>\<^verbatim>\<open>x / y\<close> on two Python floats.\<close>

definition py_truediv :: "rat \<Rightarrow> rat \<Rightarrow> result" where
  "py_truediv x y = (if y = 0 then Inl ZeroDivisionError else Inr (x / y))"

text \<open>\<^verbatim>\<open>x / y\<close> where an operand is a numpy float64 scalar.\<close>

definition np_truediv :: "rat \<Rightarrow> rat \<Rightarrow> result" where
  "np_truediv x y = (if y = 0 then Inl NonFinite else Inr (x / y))"

text \<open>\<^verbatim>\<open>int(x)\<close> on a finite float: truncation towards zero.\<close>

definition py_int :: "rat \<Rightarrow> int" where
  "py_int x = (if 0 \<le> x then \<lfloor>x\<rfloor> else \<lceil>x\<rceil>)"

text \<open>\<^verbatim>\<open>str\<close> of a Python int, as \<^verbatim>\<open>format\<close> renders an argument for \<^verbatim>\<open>{}\<close>.\<close>

definition digit_char :: "nat \<Rightarrow> char" where
  "digit_char d = ''0123456789'' ! d"

fun str_nat :: "nat \<Rightarrow> string" where
  "str_nat n = (if n < 10 then [digit_char n] else str_nat (n div 10) @ [digit_char (n mod 10)])"

declare str_nat.simps [simp del]

definition str_int :: "int \<Rightarrow> string" where
  "str_int i = (if i < 0 then CHR ''-'' # str_nat (nat (- i)) else str_nat (nat i))"

text \<open>
  Every array of the notebook is built by \<^verbatim>\<open>np.array\<close> from a tuple of three numbers
  (protein, carbohydrates, lipids), and the operations applied to them keep that shape.
\<close>

datatype ndarray = Array rat rat rat

text \<open>\<open>el x i\<close> is \<^verbatim>\<open>x[i]\<close>; it is used at the indices 0, 1 and 2 only.\<close>

fun el :: "ndarray \<Rightarrow> nat \<Rightarrow> rat" where
  "el (Array x0 x1 x2) i = (if i = 0 then x0 else if i = 1 then x1 else x2)"

text \<open>\<^verbatim>\<open>x * y\<close> on two arrays: the elementwise product.\<close>

fun np_mul :: "ndarray \<Rightarrow> ndarray \<Rightarrow> ndarray" where
  "np_mul (Array x0 x1 x2) (Array y0 y1 y2) = Array (x0 * y0) (x1 * y1) (x2 * y2)"

text \<open>\<^verbatim>\<open>x + c\<close> on an array and a scalar: the scalar is added to every entry.\<close>

fun np_add_scalar :: "ndarray \<Rightarrow> rat \<Rightarrow> ndarray" where
  "np_add_scalar (Array x0 x1 x2) c = Array (x0 + c) (x1 + c) (x2 + c)"

text \<open>\<^verbatim>\<open>np.sum(x)\<close> and \<^verbatim>\<open>x.dot(y)\<close>.\<close>

fun np_sum :: "ndarray \<Rightarrow> rat" where
  "np_sum (Array x0 x1 x2) = x0 + x1 + x2"

fun np_dot :: "ndarray \<Rightarrow> ndarray \<Rightarrow> rat" where
  "np_dot (Array x0 x1 x2) (Array y0 y1 y2) = x0 * y0 + x1 * y1 + x2 * y2"


section \<open>The organism parameters\<close>

definition du_gamma :: rat where "du_gamma = 0.01"
definition du_a :: ndarray where "du_a = Array 0.96 0.96 0.96"
definition du_phi :: ndarray where "du_phi = Array 0.16 0.61 0.01"

definition sq_gamma :: rat where "sq_gamma = 0.12"
definition sq_a :: ndarray where "sq_a = Array 0.95 0 0.85"
definition sq_phi :: ndarray where "sq_phi = Array 0.66 0.05 0.14"

definition th_gamma :: rat where "th_gamma = 0.12"
definition th_a :: ndarray where "th_a = Array 0.85 0.62 0.96"
definition th_phi :: ndarray where "th_phi = Array 0.5 0 0.31"

definition z :: ndarray where "z = Array 0.05 0.1 1"

definition lam :: rat where "lam = 100000"


section \<open>Plastic waste per year\<close>

text \<open>
  \<^verbatim>\<open>plastic_waste_per_year = num_students * avg_boba_per_month * vol_plastic_per_straw * 12\<close>
  \<^verbatim>\<open>ocean_plastic_per_year = 0.03 * plastic_waste_per_year\<close>

  The functions with suffix \<open>_of\<close> are the right-hand sides of the notebook's
  assignments with the variables they read as parameters; the constants without the
  suffix are the notebook's variables at its literals.
\<close>

definition plastic_waste_per_year_of :: "rat \<Rightarrow> rat \<Rightarrow> rat \<Rightarrow> rat" where
  "plastic_waste_per_year_of num_students avg_boba_per_month vol_plastic_per_straw =
     num_students * avg_boba_per_month * vol_plastic_per_straw * 12"

definition ocean_plastic_per_year_of :: "rat \<Rightarrow> rat" where
  "ocean_plastic_per_year_of plastic_waste_per_year = 0.03 * plastic_waste_per_year"

definition avg_boba_per_month :: rat where "avg_boba_per_month = 5"
definition vol_plastic_per_straw :: rat where "vol_plastic_per_straw = 0.016"
definition num_students :: rat where "num_students = 43000"

definition plastic_waste_per_year :: rat where
  "plastic_waste_per_year =
     plastic_waste_per_year_of num_students avg_boba_per_month vol_plastic_per_straw"

definition ocean_plastic_per_year :: rat where
  "ocean_plastic_per_year = ocean_plastic_per_year_of plastic_waste_per_year"

text \<open>The sentence the cell prints, with both volumes passed through \<^verbatim>\<open>int\<close>.\<close>

definition waste_report_of :: "rat \<Rightarrow> rat \<Rightarrow> string" where
  "waste_report_of waste ocean =
     ''Cal students would account for '' @ str_int (py_int waste)
     @ '' liters of plastic waste per year, with '' @ str_int (py_int ocean)
     @ '' liters of plastic going to the ocean, given your estimate.''"

definition waste_report :: string where
  "waste_report = waste_report_of plastic_waste_per_year ocean_plastic_per_year"


section \<open>Plastic concentration of the garbage patch\<close>

text \<open>
  \<^verbatim>\<open>gpgp_surf_area = 1.6e12\<close>
  \<^verbatim>\<open>gpgp_cur_plastic = 7.9e7/0.92\<close>
  \<^verbatim>\<open>gpgp_cur_plastic_conc = gpgp_cur_plastic/gpgp_surf_area\<close>
  \<^verbatim>\<open>gpgp_new_plastic = gpgp_cur_plastic + 0.29 * ocean_plastic_per_year\<close>
  \<^verbatim>\<open>gpgp_new_plastic_conc = gpgp_new_plastic/gpgp_surf_area\<close>
  \<^verbatim>\<open>delta_gpgp_plastic_conc = gpgp_new_plastic_conc - gpgp_cur_plastic_conc\<close>

  All operands are Python floats, so a zero divisor raises. The density \<open>0.92\<close>
  divides the baseline mass only; the added volume \<open>0.29 * ocean_plastic_per_year\<close>
  enters undivided.
\<close>

definition gpgp_cur_plastic :: result where
  "gpgp_cur_plastic = py_truediv 79000000 0.92"

definition gpgp_cur_plastic_conc_of :: "rat \<Rightarrow> result" where
  "gpgp_cur_plastic_conc_of area =
     and_then gpgp_cur_plastic (\<lambda>cur. py_truediv cur area)"

definition gpgp_new_plastic_of :: "rat \<Rightarrow> result" where
  "gpgp_new_plastic_of ocean =
     and_then gpgp_cur_plastic (\<lambda>cur. Inr (cur + 0.29 * ocean))"

definition gpgp_new_plastic_conc_of :: "rat \<Rightarrow> rat \<Rightarrow> result" where
  "gpgp_new_plastic_conc_of ocean area =
     and_then (gpgp_new_plastic_of ocean)
       (\<lambda>new. py_truediv new area)"

text \<open>
  The statements run in the order of the cell, so the first division that raises is
  the one the cell reports.
\<close>

definition delta_gpgp_plastic_conc_of :: "rat \<Rightarrow> rat \<Rightarrow> result" where
  "delta_gpgp_plastic_conc_of waste area =
     and_then (gpgp_cur_plastic_conc_of area) (\<lambda>cur_conc.
     and_then (gpgp_new_plastic_conc_of (ocean_plastic_per_year_of waste)
                 area) (\<lambda>new_conc.
     Inr (new_conc - cur_conc)))"

definition gpgp_surf_area :: rat where "gpgp_surf_area = 1600000000000"

definition gpgp_cur_plastic_conc :: result where
  "gpgp_cur_plastic_conc = gpgp_cur_plastic_conc_of gpgp_surf_area"

definition gpgp_new_plastic :: result where
  "gpgp_new_plastic = gpgp_new_plastic_of ocean_plastic_per_year"

definition gpgp_new_plastic_conc :: result where
  "gpgp_new_plastic_conc = gpgp_new_plastic_conc_of ocean_plastic_per_year gpgp_surf_area"

definition delta_gpgp_plastic_conc :: result where
  "delta_gpgp_plastic_conc = delta_gpgp_plastic_conc_of plastic_waste_per_year gpgp_surf_area"


section \<open>Biomagnification factors\<close>

text \<open>
  The cell evaluates the same three expressions once per organism:
  \<^verbatim>\<open>du_az = np.sum(du_a * du_phi * z)/du_phi.dot(z)\<close>
  \<^verbatim>\<open>du_beta = 1 - du_az\<close>
  \<^verbatim>\<open>du_bmf = 1/(du_beta + du_gamma)\<close>
  and likewise with \<^verbatim>\<open>sq_\<close> and \<^verbatim>\<open>th_\<close>. Both quotients have a numpy float64
  operand.
\<close>

definition az_of :: "ndarray \<Rightarrow> ndarray \<Rightarrow> ndarray \<Rightarrow> result" where
  "az_of a phi zv = np_truediv (np_sum (np_mul (np_mul a phi) zv)) (np_dot phi zv)"

definition beta_of :: "result \<Rightarrow> result" where
  "beta_of az = and_then az (\<lambda>x. Inr (1 - x))"

definition bmf_of :: "result \<Rightarrow> rat \<Rightarrow> result" where
  "bmf_of beta gamma = and_then beta (\<lambda>b. np_truediv 1 (b + gamma))"

definition du_az :: result where "du_az = az_of du_a du_phi z"
definition sq_az :: result where "sq_az = az_of sq_a sq_phi z"
definition th_az :: result where "th_az = az_of th_a th_phi z"
definition du_beta :: result where "du_beta = beta_of du_az"
definition sq_beta :: result where "sq_beta = beta_of sq_az"
definition th_beta :: result where "th_beta = beta_of th_az"
definition du_bmf :: result where "du_bmf = bmf_of du_beta du_gamma"
definition sq_bmf :: result where "sq_bmf = bmf_of sq_beta sq_gamma"
definition th_bmf :: result where "th_bmf = bmf_of th_beta th_gamma"

text \<open>
  The second half of the cell:
  \<^verbatim>\<open>du_a_new = du_a + lam * delta_gpgp_plastic_conc\<close>
  \<^verbatim>\<open>du_az_new = np.sum(du_a_new * du_phi * z)/du_phi.dot(z)\<close>
  \<^verbatim>\<open>du_beta_new = 1 - du_az_new\<close>
  \<^verbatim>\<open>du_bmf_new = 1/(du_beta_new + du_gamma)\<close>
  \<^verbatim>\<open>du_percent_change = (du_bmf_new - du_bmf)/du_bmf * 100\<close>
\<close>

definition a_new_of :: "ndarray \<Rightarrow> rat \<Rightarrow> result \<Rightarrow> fault + ndarray" where
  "a_new_of a l delta = and_then delta (\<lambda>d. Inr (np_add_scalar a (l * d)))"

definition az_new_of :: "fault + ndarray \<Rightarrow> ndarray \<Rightarrow> ndarray \<Rightarrow> result" where
  "az_new_of a_new phi zv = and_then a_new (\<lambda>a'.
     np_truediv (np_sum (np_mul (np_mul a' phi) zv)) (np_dot phi zv))"

definition percent_change_of :: "result \<Rightarrow> result \<Rightarrow> result" where
  "percent_change_of bmf_new bmf =
     and_then bmf (\<lambda>old. and_then bmf_new (\<lambda>new.
     and_then (np_truediv (new - old) old) (\<lambda>q. Inr (q * 100))))"

definition du_a_new :: "fault + ndarray" where
  "du_a_new = a_new_of du_a lam delta_gpgp_plastic_conc"
definition sq_a_new :: "fault + ndarray" where
  "sq_a_new = a_new_of sq_a lam delta_gpgp_plastic_conc"
definition th_a_new :: "fault + ndarray" where
  "th_a_new = a_new_of th_a lam delta_gpgp_plastic_conc"

definition du_az_new :: result where "du_az_new = az_new_of du_a_new du_phi z"
definition sq_az_new :: result where "sq_az_new = az_new_of sq_a_new sq_phi z"
definition th_az_new :: result where "th_az_new = az_new_of th_a_new th_phi z"
definition du_beta_new :: result where "du_beta_new = beta_of du_az_new"
definition sq_beta_new :: result where "sq_beta_new = beta_of sq_az_new"
definition th_beta_new :: result where "th_beta_new = beta_of th_az_new"
definition du_bmf_new :: result where "du_bmf_new = bmf_of du_beta_new du_gamma"
definition sq_bmf_new :: result where "sq_bmf_new = bmf_of sq_beta_new sq_gamma"
definition th_bmf_new :: result where "th_bmf_new = bmf_of th_beta_new th_gamma"

definition du_percent_change :: result where
  "du_percent_change = percent_change_of du_bmf_new du_bmf"
definition sq_percent_change :: result where
  "sq_percent_change = percent_change_of sq_bmf_new sq_bmf"
definition th_percent_change :: result where
  "th_percent_change = percent_change_of th_bmf_new th_bmf"

text \<open>The heights handed to \<^verbatim>\<open>ax.bar\<close>, in the order Dugong, Squid, Marine Mysid.\<close>

definition bar_heights :: "result list" where
  "bar_heights = [du_percent_change, sq_percent_change, th_percent_change]"


section \<open>The formulas as the specification words them\<close>

text \<open>
  Weighted digestibility is \<open>\<Sum>(digestibility \<cdot> diet-fraction \<cdot> concentration) \<div>
  \<Sum>(diet-fraction \<cdot> concentration)\<close>, the driving force is one minus it, and the
  biomagnification factor is \<open>1 \<div> (driving force + counteracting force)\<close>. These are
  plain rational expressions; they are compared with the code's results below.
\<close>

definition spec_alpha_Z :: "ndarray \<Rightarrow> ndarray \<Rightarrow> ndarray \<Rightarrow> rat" where
  "spec_alpha_Z a phi zv =
     (\<Sum>i<3. el a i * el phi i * el zv i) / (\<Sum>i<3. el phi i * el zv i)"

definition spec_beta :: "ndarray \<Rightarrow> ndarray \<Rightarrow> ndarray \<Rightarrow> rat" where
  "spec_beta a phi zv = 1 - spec_alpha_Z a phi zv"

definition spec_BMF :: "ndarray \<Rightarrow> ndarray \<Rightarrow> ndarray \<Rightarrow> rat \<Rightarrow> rat" where
  "spec_BMF a phi zv gamma = 1 / (spec_beta a phi zv + gamma)"


section \<open>Results\<close>

subsection \<open>Reading results\<close>

lemma and_then_Inr [simp]: "and_then (Inr v) f = f v"
  by (simp add: and_then_def)

lemma and_then_Inl [simp]: "and_then (Inl e) f = Inl e"
  by (simp add: and_then_def)

lemma defined_Inr [simp]: "defined (Inr v)"
  by (simp add: defined_def)

lemma defined_Inl [simp]: "\<not> defined (Inl e)"
  by (simp add: defined_def)

lemma sum_lessThan_3: "(\<Sum>i<3. f i) = f 0 + f 1 + (f 2 :: rat)" for f :: "nat \<Rightarrow> rat"
  by (simp add: numeral_3_eq_3 numeral_2_eq_2 lessThan_Suc)

lemma np_sum_mul_mul:
  "np_sum (np_mul (np_mul a phi) zv) = (\<Sum>i<3. el a i * el phi i * el zv i)"
  by (cases a; cases phi; cases zv) (simp add: sum_lessThan_3)

lemma np_dot_sum: "np_dot phi zv = (\<Sum>i<3. el phi i * el zv i)"
  by (cases phi; cases zv) (simp add: sum_lessThan_3)

subsection \<open>The waste estimate\<close>

lemma str_nat_41280: "str_nat 41280 = ''41280''"
  by (simp add: str_nat.simps digit_char_def)

lemma str_nat_1238: "str_nat 1238 = ''1238''"
  by (simp add: str_nat.simps digit_char_def)

lemma plastic_waste_per_year_value: "plastic_waste_per_year = 41280"
  by (simp add: plastic_waste_per_year_def plastic_waste_per_year_of_def num_students_def
      avg_boba_per_month_def vol_plastic_per_straw_def)

lemma ocean_plastic_per_year_value: "ocean_plastic_per_year = 12384 / 10"
  by (simp add: ocean_plastic_per_year_def ocean_plastic_per_year_of_def
      plastic_waste_per_year_value)

lemma py_int_waste: "py_int plastic_waste_per_year = 41280"
  by (simp add: py_int_def plastic_waste_per_year_value)

lemma py_int_ocean: "py_int ocean_plastic_per_year = 1238"
proof -
  have "\<lfloor>12384 / 10 :: rat\<rfloor> = 1238"
    by (rule floor_unique) simp_all
  then show ?thesis
    by (simp add: py_int_def ocean_plastic_per_year_value)
qed

text \<open>
  C5. With 43000 students, 5 bobas a month and 0.016 litres a straw, the yearly waste is
  43000 \<times> 5 \<times> 0.016 \<times> 12 = 41280 litres, the ocean's share at 0.03 is 1238.4 litres, and
  the printed sentence shows them as the integers 41280 and 1238.
\<close>

theorem waste_scenario:
  "num_students = 43000 \<and> avg_boba_per_month = 5 \<and> vol_plastic_per_straw = 0.016
   \<and> plastic_waste_per_year = 43000 * 5 * 0.016 * 12
   \<and> plastic_waste_per_year = 41280
   \<and> ocean_plastic_per_year = 0.03 * 41280
   \<and> ocean_plastic_per_year = 1238.4
   \<and> py_int plastic_waste_per_year = 41280
   \<and> py_int ocean_plastic_per_year = 1238
   \<and> waste_report = ''Cal students would account for 41280 liters of plastic waste per year, with 1238 liters of plastic going to the ocean, given your estimate.''"
proof -
  have params: "num_students = 43000" "avg_boba_per_month = 5" "vol_plastic_per_straw = 0.016"
    by (simp_all add: num_students_def avg_boba_per_month_def vol_plastic_per_straw_def)
  have waste: "plastic_waste_per_year = 43000 * 5 * 0.016 * 12" "plastic_waste_per_year = 41280"
    by (simp_all add: plastic_waste_per_year_value)
  have ocean: "ocean_plastic_per_year = 0.03 * 41280" "ocean_plastic_per_year = 1238.4"
    by (simp_all add: ocean_plastic_per_year_value)
  have report: "waste_report = ''Cal students would account for 41280 liters of plastic waste per year, with 1238 liters of plastic going to the ocean, given your estimate.''"
    by (simp add: waste_report_def waste_report_of_def py_int_waste py_int_ocean str_int_def
        str_nat_41280 str_nat_1238)
  note facts = params waste ocean py_int_waste py_int_ocean report
  show ?thesis
    by (intro conjI) (rule facts)+
qed

text \<open>
  C8. The yearly waste is linear in each of its three inputs, whatever the other two
  are: it is homogeneous and additive in each, so doubling the population, the rate or
  the straw volume doubles it; and in each input it is monotonic (non-decreasing or
  non-increasing, non-decreasing when the other two inputs are not negative).
\<close>

theorem waste_linear_in_each_input:
  "plastic_waste_per_year_of (2 * n) r v = 2 * plastic_waste_per_year_of n r v
   \<and> plastic_waste_per_year_of n (2 * r) v = 2 * plastic_waste_per_year_of n r v
   \<and> plastic_waste_per_year_of n r (2 * v) = 2 * plastic_waste_per_year_of n r v
   \<and> plastic_waste_per_year_of (k * n + n') r v
       = k * plastic_waste_per_year_of n r v + plastic_waste_per_year_of n' r v
   \<and> plastic_waste_per_year_of n (k * r + r') v
       = k * plastic_waste_per_year_of n r v + plastic_waste_per_year_of n r' v
   \<and> plastic_waste_per_year_of n r (k * v + v')
       = k * plastic_waste_per_year_of n r v + plastic_waste_per_year_of n r v'
   \<and> (mono (\<lambda>x. plastic_waste_per_year_of x r v) \<or> antimono (\<lambda>x. plastic_waste_per_year_of x r v))
   \<and> (mono (\<lambda>x. plastic_waste_per_year_of n x v) \<or> antimono (\<lambda>x. plastic_waste_per_year_of n x v))
   \<and> (mono (\<lambda>x. plastic_waste_per_year_of n r x) \<or> antimono (\<lambda>x. plastic_waste_per_year_of n r x))
   \<and> (0 \<le> r \<and> 0 \<le> v \<and> n \<le> n'
        \<longrightarrow> plastic_waste_per_year_of n r v \<le> plastic_waste_per_year_of n' r v)
   \<and> (0 \<le> n \<and> 0 \<le> v \<and> r \<le> r'
        \<longrightarrow> plastic_waste_per_year_of n r v \<le> plastic_waste_per_year_of n r' v)
   \<and> (0 \<le> n \<and> 0 \<le> r \<and> v \<le> v'
        \<longrightarrow> plastic_waste_per_year_of n r v \<le> plastic_waste_per_year_of n r v')"
proof -
  have scale: "mono (\<lambda>x. c * x) \<or> antimono (\<lambda>x. c * x)" for c :: rat
  proof (cases "0 \<le> c")
    case True
    then show ?thesis by (simp add: mono_def mult_left_mono)
  next
    case False
    then show ?thesis by (simp add: antimono_def mult_left_mono_neg)
  qed
  have f1: "(\<lambda>x. plastic_waste_per_year_of x r v) = (\<lambda>x. (r * v * 12) * x)"
    and f2: "(\<lambda>x. plastic_waste_per_year_of n x v) = (\<lambda>x. (n * v * 12) * x)"
    and f3: "(\<lambda>x. plastic_waste_per_year_of n r x) = (\<lambda>x. (n * r * 12) * x)"
    by (simp_all add: fun_eq_iff plastic_waste_per_year_of_def)
  have m1: "mono (\<lambda>x. plastic_waste_per_year_of x r v) \<or> antimono (\<lambda>x. plastic_waste_per_year_of x r v)"
    unfolding f1 by (rule scale)
  have m2: "mono (\<lambda>x. plastic_waste_per_year_of n x v) \<or> antimono (\<lambda>x. plastic_waste_per_year_of n x v)"
    unfolding f2 by (rule scale)
  have m3: "mono (\<lambda>x. plastic_waste_per_year_of n r x) \<or> antimono (\<lambda>x. plastic_waste_per_year_of n r x)"
    unfolding f3 by (rule scale)
  have lin: "plastic_waste_per_year_of (k * n + n') r v
       = k * plastic_waste_per_year_of n r v + plastic_waste_per_year_of n' r v"
    "plastic_waste_per_year_of n (k * r + r') v
       = k * plastic_waste_per_year_of n r v + plastic_waste_per_year_of n r' v"
    "plastic_waste_per_year_of n r (k * v + v')
       = k * plastic_waste_per_year_of n r v + plastic_waste_per_year_of n r v'"
    by (simp_all add: plastic_waste_per_year_of_def algebra_simps)
  have up: "0 \<le> r \<and> 0 \<le> v \<and> n \<le> n'
        \<longrightarrow> plastic_waste_per_year_of n r v \<le> plastic_waste_per_year_of n' r v"
    "0 \<le> n \<and> 0 \<le> v \<and> r \<le> r'
        \<longrightarrow> plastic_waste_per_year_of n r v \<le> plastic_waste_per_year_of n r' v"
    "0 \<le> n \<and> 0 \<le> r \<and> v \<le> v'
        \<longrightarrow> plastic_waste_per_year_of n r v \<le> plastic_waste_per_year_of n r v'"
    by (simp_all add: plastic_waste_per_year_of_def mult_left_mono mult_right_mono)
  have dbl: "plastic_waste_per_year_of (2 * n) r v = 2 * plastic_waste_per_year_of n r v"
    "plastic_waste_per_year_of n (2 * r) v = 2 * plastic_waste_per_year_of n r v"
    "plastic_waste_per_year_of n r (2 * v) = 2 * plastic_waste_per_year_of n r v"
    by (simp_all add: plastic_waste_per_year_of_def)
  from dbl lin m1 m2 m3 up show ?thesis
    by (intro conjI)
qed

theorem waste_linear_in_each_input_witness:
  "plastic_waste_per_year_of (2 * 43000) 5 0.016 = 2 * plastic_waste_per_year_of 43000 5 0.016
   \<and> plastic_waste_per_year_of 43000 5 0.016 \<le> plastic_waste_per_year_of 43001 5 0.016
   \<and> plastic_waste_per_year_of 43000 5 0.016 \<le> plastic_waste_per_year_of 43000 6 0.016
   \<and> plastic_waste_per_year_of 43000 5 0.016 \<le> plastic_waste_per_year_of 43000 5 0.017"
  using waste_linear_in_each_input [of 43000 5 "0.016" 1 43001 6 "0.017"]
  by simp

subsection \<open>The concentration delta\<close>

lemma gpgp_cur_plastic_value: "gpgp_cur_plastic = Inr (1975000000 / 23)"
  by (simp add: gpgp_cur_plastic_def py_truediv_def)

lemma delta_of_closed_form:
  assumes "area \<noteq> 0"
  shows "delta_gpgp_plastic_conc_of waste area = Inr (0.29 * 0.03 * waste / area)"
  using assms
  by (simp add: delta_gpgp_plastic_conc_of_def gpgp_cur_plastic_conc_of_def
      gpgp_new_plastic_conc_of_def gpgp_new_plastic_of_def ocean_plastic_per_year_of_def
      gpgp_cur_plastic_value py_truediv_def field_simps)

lemma delta_of_raises:
  "delta_gpgp_plastic_conc_of waste 0 = Inl ZeroDivisionError"
  by (simp add: delta_gpgp_plastic_conc_of_def gpgp_cur_plastic_conc_of_def
      gpgp_cur_plastic_value py_truediv_def)

lemma delta_value: "delta_gpgp_plastic_conc = Inr (11223 / 50000000000000)"
  by (simp add: delta_gpgp_plastic_conc_def gpgp_surf_area_def delta_of_closed_form
      plastic_waste_per_year_value)

text \<open>
  C2, as stated, fails on the notebook's own numbers: the delta the cell computes is
  \<open>2.2446e-10\<close> (what the captured run prints, up to rounding), whereas
  \<open>(0.29 \<times> 0.03 \<times> plastic_waste_per_year) / gpgp_surf_area / 0.92\<close> is larger by the
  factor \<open>1 / 0.92\<close>.
\<close>

theorem delta_divided_by_density_counterexample:
  "delta_gpgp_plastic_conc = Inr (22446 / 10 ^ 14)
   \<and> delta_gpgp_plastic_conc
       \<noteq> Inr ((0.29 * 0.03 * plastic_waste_per_year) / gpgp_surf_area / 0.92)"
  by (simp add: delta_value plastic_waste_per_year_value gpgp_surf_area_def)

text \<open>
  C2, amended. For every waste volume and every nonzero area the delta is
  \<open>(0.29 \<times> 0.03 \<times> waste) \<div> area\<close>, with no division by the density: the density
  converts the baseline mass to a volume, and the baseline cancels in the difference.
\<close>

theorem delta_closed_form:
  "area \<noteq> 0 \<Longrightarrow>
     delta_gpgp_plastic_conc_of waste area = Inr ((0.29 * 0.03 * waste) / area)"
  by (simp add: delta_of_closed_form)

theorem delta_closed_form_witness:
  "gpgp_surf_area \<noteq> 0
   \<and> delta_gpgp_plastic_conc = Inr ((0.29 * 0.03 * plastic_waste_per_year) / gpgp_surf_area)"
proof -
  have nz: "gpgp_surf_area \<noteq> 0"
    by (simp add: gpgp_surf_area_def)
  show ?thesis
    using nz delta_closed_form [OF nz, of plastic_waste_per_year]
    by (simp add: delta_gpgp_plastic_conc_def)
qed

subsection \<open>Weighted digestibility, driving force, BMF\<close>

lemma az_of_spec:
  assumes "np_dot phi zv \<noteq> 0"
  shows "az_of a phi zv = Inr (spec_alpha_Z a phi zv)"
  using assms
  by (simp add: az_of_def np_truediv_def spec_alpha_Z_def np_sum_mul_mul np_dot_sum)

lemma az_of_zero_weights: "np_dot phi zv = 0 \<Longrightarrow> az_of a phi zv = Inl NonFinite"
  by (simp add: az_of_def np_truediv_def)

lemma beta_of_spec:
  assumes "np_dot phi zv \<noteq> 0"
  shows "beta_of (az_of a phi zv) = Inr (spec_beta a phi zv)"
  using assms by (simp add: az_of_spec beta_of_def spec_beta_def)

lemma bmf_of_spec:
  assumes "np_dot phi zv \<noteq> 0" and "spec_beta a phi zv + gamma \<noteq> 0"
  shows "bmf_of (beta_of (az_of a phi zv)) gamma = Inr (spec_BMF a phi zv gamma)"
  using assms by (simp add: beta_of_spec bmf_of_def np_truediv_def spec_BMF_def)

lemma np_dot_du: "np_dot du_phi z = 79 / 1000"
  by (simp add: du_phi_def z_def)

lemma np_dot_sq: "np_dot sq_phi z = 178 / 1000"
  by (simp add: sq_phi_def z_def)

lemma np_dot_th: "np_dot th_phi z = 335 / 1000"
  by (simp add: th_phi_def z_def)

lemma du_az_value: "du_az = Inr (96 / 100)"
  by (simp add: du_az_def az_of_def np_truediv_def du_a_def du_phi_def z_def)

lemma sq_az_value: "sq_az = Inr (15035 / 17800)"
  by (simp add: sq_az_def az_of_def np_truediv_def sq_a_def sq_phi_def z_def)

lemma th_az_value: "th_az = Inr (31885 / 33500)"
  by (simp add: th_az_def az_of_def np_truediv_def th_a_def th_phi_def z_def)

lemma du_beta_value: "du_beta = Inr (4 / 100)"
  by (simp add: du_beta_def beta_of_def du_az_value)

lemma sq_beta_value: "sq_beta = Inr (2765 / 17800)"
  by (simp add: sq_beta_def beta_of_def sq_az_value)

lemma th_beta_value: "th_beta = Inr (1615 / 33500)"
  by (simp add: th_beta_def beta_of_def th_az_value)

lemma du_bmf_value: "du_bmf = Inr 20"
  by (simp add: du_bmf_def bmf_of_def du_beta_value np_truediv_def du_gamma_def)

lemma sq_bmf_value: "sq_bmf = Inr (17800 / 4901)"
  by (simp add: sq_bmf_def bmf_of_def sq_beta_value np_truediv_def sq_gamma_def)

lemma th_bmf_value: "th_bmf = Inr (6700 / 1127)"
  by (simp add: th_bmf_def bmf_of_def th_beta_value np_truediv_def th_gamma_def)

lemma spec_alpha_Z_du: "spec_alpha_Z du_a du_phi z = 96 / 100"
  by (simp add: spec_alpha_Z_def sum_lessThan_3 du_a_def du_phi_def z_def)

lemma spec_alpha_Z_sq: "spec_alpha_Z sq_a sq_phi z = 15035 / 17800"
  by (simp add: spec_alpha_Z_def sum_lessThan_3 sq_a_def sq_phi_def z_def)

lemma spec_alpha_Z_th: "spec_alpha_Z th_a th_phi z = 31885 / 33500"
  by (simp add: spec_alpha_Z_def sum_lessThan_3 th_a_def th_phi_def z_def)

text \<open>
  C1. For every parameter set whose weights do not sum to zero, the code's weighted
  digestibility is \<open>(\<Sum> a\<^sub>i \<phi>\<^sub>i z\<^sub>i) / (\<Sum> \<phi>\<^sub>i z\<^sub>i)\<close>, its driving force is one minus
  that, and, when driving force plus gamma is not zero, its BMF is their reciprocal;
  and the nine baseline variables of dugong, squid and marine mysid are these formulas
  at the organism's literals.
\<close>

theorem bmf_code_computes_formula:
  assumes "(\<Sum>i<3. el phi i * el zv i) \<noteq> 0"
  shows "az_of a phi zv
           = Inr ((\<Sum>i<3. el a i * el phi i * el zv i) / (\<Sum>i<3. el phi i * el zv i))
    \<and> az_of a phi zv = Inr (spec_alpha_Z a phi zv)
    \<and> beta_of (az_of a phi zv) = Inr (1 - spec_alpha_Z a phi zv)
    \<and> (1 - spec_alpha_Z a phi zv + gamma \<noteq> 0 \<longrightarrow>
           bmf_of (beta_of (az_of a phi zv)) gamma
             = Inr (1 / ((1 - spec_alpha_Z a phi zv) + gamma)))
    \<and> du_az = Inr (spec_alpha_Z du_a du_phi z) \<and> du_beta = Inr (spec_beta du_a du_phi z)
    \<and> du_bmf = Inr (spec_BMF du_a du_phi z du_gamma)
    \<and> sq_az = Inr (spec_alpha_Z sq_a sq_phi z) \<and> sq_beta = Inr (spec_beta sq_a sq_phi z)
    \<and> sq_bmf = Inr (spec_BMF sq_a sq_phi z sq_gamma)
    \<and> th_az = Inr (spec_alpha_Z th_a th_phi z) \<and> th_beta = Inr (spec_beta th_a th_phi z)
    \<and> th_bmf = Inr (spec_BMF th_a th_phi z th_gamma)"
proof -
  from assms have nz: "np_dot phi zv \<noteq> 0"
    by (simp add: np_dot_sum)
  from nz have g1: "az_of a phi zv = Inr (spec_alpha_Z a phi zv)"
    by (rule az_of_spec)
  then have g0: "az_of a phi zv
      = Inr ((\<Sum>i<3. el a i * el phi i * el zv i) / (\<Sum>i<3. el phi i * el zv i))"
    by (simp add: spec_alpha_Z_def)
  from nz have g2: "beta_of (az_of a phi zv) = Inr (1 - spec_alpha_Z a phi zv)"
    by (simp add: beta_of_spec spec_beta_def)
  have g3: "1 - spec_alpha_Z a phi zv + gamma \<noteq> 0 \<longrightarrow>
      bmf_of (beta_of (az_of a phi zv)) gamma = Inr (1 / ((1 - spec_alpha_Z a phi zv) + gamma))"
    using nz by (simp add: bmf_of_spec spec_BMF_def spec_beta_def)
  have du: "du_az = Inr (spec_alpha_Z du_a du_phi z)" "du_beta = Inr (spec_beta du_a du_phi z)"
    "du_bmf = Inr (spec_BMF du_a du_phi z du_gamma)"
    by (simp_all add: du_az_value du_beta_value du_bmf_value spec_BMF_def spec_beta_def
        spec_alpha_Z_du du_gamma_def)
  have sq: "sq_az = Inr (spec_alpha_Z sq_a sq_phi z)" "sq_beta = Inr (spec_beta sq_a sq_phi z)"
    "sq_bmf = Inr (spec_BMF sq_a sq_phi z sq_gamma)"
    by (simp_all add: sq_az_value sq_beta_value sq_bmf_value spec_BMF_def spec_beta_def
        spec_alpha_Z_sq sq_gamma_def)
  have th: "th_az = Inr (spec_alpha_Z th_a th_phi z)" "th_beta = Inr (spec_beta th_a th_phi z)"
    "th_bmf = Inr (spec_BMF th_a th_phi z th_gamma)"
    by (simp_all add: th_az_value th_beta_value th_bmf_value spec_BMF_def spec_beta_def
        spec_alpha_Z_th th_gamma_def)
  note facts = g0 g1 g2 g3 du sq th
  show ?thesis
    by (intro conjI) (rule facts)+
qed

theorem bmf_code_computes_formula_witness:
  "(\<Sum>i<3. el (Array 1 2 3) i * el (Array 1 1 2) i) \<noteq> 0
   \<and> az_of (Array (1/2) (1/4) 0) (Array 1 2 3) (Array 1 1 2) = Inr (1 / 9)
   \<and> beta_of (az_of (Array (1/2) (1/4) 0) (Array 1 2 3) (Array 1 1 2)) = Inr (8 / 9)
   \<and> bmf_of (beta_of (az_of (Array (1/2) (1/4) 0) (Array 1 2 3) (Array 1 1 2))) (1 / 9) = Inr 1"
proof -
  have nz: "(\<Sum>i<3. el (Array 1 2 3) i * el (Array 1 1 2) i) \<noteq> 0"
    by (simp add: sum_lessThan_3)
  have v: "spec_alpha_Z (Array (1/2) (1/4) 0) (Array 1 2 3) (Array 1 1 2) = 1 / 9"
    by (simp add: spec_alpha_Z_def sum_lessThan_3)
  have nz': "1 - spec_alpha_Z (Array (1/2) (1/4) 0) (Array 1 2 3) (Array 1 1 2) + 1 / 9 \<noteq> 0"
    by (simp add: v)
  note t = bmf_code_computes_formula [OF nz, of "Array (1/2) (1/4) 0" "1 / 9", unfolded v]
  note az = t [THEN conjunct2, THEN conjunct1]
  note beta = t [THEN conjunct2, THEN conjunct2, THEN conjunct1]
  note bmf = t [THEN conjunct2, THEN conjunct2, THEN conjunct2, THEN conjunct1]
  show ?thesis
    using nz az beta bmf by simp
qed

text \<open>
  C4. With the dugong literals the baseline BMF is \<open>1 / (1 - 0.96 + 0.01) = 20\<close>
  exactly, which is within \<open>10\<^sup>-\<^sup>1\<^sup>2\<close> of the recorded \<open>19.99999999999994\<close>.
\<close>

theorem dugong_baseline_bmf:
  "du_a = Array 0.96 0.96 0.96 \<and> du_phi = Array 0.16 0.61 0.01 \<and> z = Array 0.05 0.1 1
   \<and> du_gamma = 0.01
   \<and> du_bmf = Inr (1 / (1 - 0.96 + 0.01))
   \<and> du_bmf = Inr 20
   \<and> (\<exists>v. du_bmf = Inr v \<and> \<bar>v - 19.99999999999994\<bar> < 1 / 10 ^ 12)"
proof -
  have lits: "du_a = Array 0.96 0.96 0.96" "du_phi = Array 0.16 0.61 0.01"
    "z = Array 0.05 0.1 1" "du_gamma = 0.01"
    by (simp_all add: du_a_def du_phi_def z_def du_gamma_def)
  have formula: "du_bmf = Inr (1 / (1 - 0.96 + 0.01))"
    by (simp add: du_bmf_value)
  have near: "\<exists>v. du_bmf = Inr v \<and> \<bar>v - 19.99999999999994\<bar> < 1 / 10 ^ 12"
    by (simp add: du_bmf_value)
  note facts = lits formula du_bmf_value near
  show ?thesis
    by (intro conjI) (rule facts)+
qed

text \<open>
  C3, as stated, fails at diet fractions that are all zero: with digestibility 1 in
  every component, numerator and denominator are both \<open>0\<close>, and numpy evaluates the
  quotient \<open>0 / 0\<close> to \<^verbatim>\<open>nan\<close>, not to \<open>1.0\<close>.
\<close>

theorem perfect_digestion_zero_weights_counterexample:
  "az_of (Array 1 1 1) (Array 0 0 0) (Array 0.05 0.1 1) = Inl NonFinite
   \<and> az_of (Array 1 1 1) (Array 0 0 0) (Array 0.05 0.1 1) \<noteq> Inr 1"
  by (simp add: az_of_def np_truediv_def)

text \<open>
  C3, amended. For all diet fractions and concentrations whose products do not sum to
  zero, digestibility 1 in every component gives weighted digestibility exactly 1.
\<close>

theorem perfect_digestion:
  "(\<Sum>i<3. el phi i * el zv i) \<noteq> 0 \<Longrightarrow> az_of (Array 1 1 1) phi zv = Inr 1"
  by (cases phi; cases zv) (simp add: az_of_def np_truediv_def sum_lessThan_3)

theorem perfect_digestion_witness:
  "(\<Sum>i<3. el du_phi i * el z i) \<noteq> 0 \<and> az_of (Array 1 1 1) du_phi z = Inr 1"
proof -
  have nz: "(\<Sum>i<3. el du_phi i * el z i) \<noteq> 0"
    by (simp add: sum_lessThan_3 du_phi_def z_def)
  show ?thesis
    using nz perfect_digestion [OF nz] by simp
qed

subsection \<open>The perturbed computation\<close>

lemma el_np_add_scalar: "i < 3 \<Longrightarrow> el (np_add_scalar a c) i = el a i + c"
  by (cases a) simp

lemma az_of_shift:
  assumes "np_dot phi zv \<noteq> 0"
  shows "az_of (np_add_scalar a c) phi zv = and_then (az_of a phi zv) (\<lambda>x. Inr (x + c))"
proof (cases a; cases phi; cases zv)
  fix a0 a1 a2 p0 p1 p2 z0 z1 z2
  assume a: "a = Array a0 a1 a2" and p: "phi = Array p0 p1 p2" and zz: "zv = Array z0 z1 z2"
  let ?d = "p0 * z0 + p1 * z1 + p2 * z2"
  from assms p zz have d: "?d \<noteq> 0"
    by simp
  have "(a0 + c) * p0 * z0 + (a1 + c) * p1 * z1 + (a2 + c) * p2 * z2
      = (a0 * p0 * z0 + a1 * p1 * z1 + a2 * p2 * z2) + c * ?d"
    by (simp add: algebra_simps)
  then have "((a0 + c) * p0 * z0 + (a1 + c) * p1 * z1 + (a2 + c) * p2 * z2) / ?d
      = (a0 * p0 * z0 + a1 * p1 * z1 + a2 * p2 * z2) / ?d + c"
    using d by (simp add: add_divide_distrib)
  with d show ?thesis
    by (simp add: a p zz az_of_def np_truediv_def)
qed

lemma az_new_of_Inr: "az_new_of (Inr a') phi zv = az_of a' phi zv"
  by (simp add: az_new_of_def az_of_def)

lemma a_new_of_Inr: "a_new_of a l (Inr d) = Inr (np_add_scalar a (l * d))"
  by (simp add: a_new_of_def)

lemma az_new_of_shifted:
  assumes "np_dot phi zv \<noteq> 0" and "az_of a phi zv = Inr x"
  shows "az_new_of (a_new_of a l (Inr d)) phi zv = Inr (x + l * d)"
proof -
  have "az_new_of (a_new_of a l (Inr d)) phi zv = az_of (np_add_scalar a (l * d)) phi zv"
    by (simp add: a_new_of_Inr az_new_of_Inr)
  also have "\<dots> = and_then (az_of a phi zv) (\<lambda>x. Inr (x + l * d))"
    using assms(1) by (rule az_of_shift)
  also have "\<dots> = Inr (x + l * d)"
    by (simp add: assms(2))
  finally show ?thesis .
qed

lemma lam_delta: "lam * (11223 / 50000000000000) = 11223 / 500000000"
  by (simp add: lam_def)

lemma du_a_new_value: "du_a_new = Inr (np_add_scalar du_a (lam * (11223 / 50000000000000)))"
  by (simp add: du_a_new_def delta_value a_new_of_Inr)

lemma sq_a_new_value: "sq_a_new = Inr (np_add_scalar sq_a (lam * (11223 / 50000000000000)))"
  by (simp add: sq_a_new_def delta_value a_new_of_Inr)

lemma th_a_new_value: "th_a_new = Inr (np_add_scalar th_a (lam * (11223 / 50000000000000)))"
  by (simp add: th_a_new_def delta_value a_new_of_Inr)

lemma du_az_new_value: "du_az_new = Inr (96 / 100 + lam * (11223 / 50000000000000))"
proof -
  have "np_dot du_phi z \<noteq> 0"
    by (simp add: np_dot_du)
  then show ?thesis
    unfolding du_az_new_def du_a_new_def delta_value
    by (rule az_new_of_shifted) (simp add: du_az_value [unfolded du_az_def])
qed

lemma sq_az_new_value: "sq_az_new = Inr (15035 / 17800 + lam * (11223 / 50000000000000))"
proof -
  have "np_dot sq_phi z \<noteq> 0"
    by (simp add: np_dot_sq)
  then show ?thesis
    unfolding sq_az_new_def sq_a_new_def delta_value
    by (rule az_new_of_shifted) (simp add: sq_az_value [unfolded sq_az_def])
qed

lemma th_az_new_value: "th_az_new = Inr (31885 / 33500 + lam * (11223 / 50000000000000))"
proof -
  have "np_dot th_phi z \<noteq> 0"
    by (simp add: np_dot_th)
  then show ?thesis
    unfolding th_az_new_def th_a_new_def delta_value
    by (rule az_new_of_shifted) (simp add: th_az_value [unfolded th_az_def])
qed

lemma du_beta_new_value: "du_beta_new = Inr (4 / 100 - lam * (11223 / 50000000000000))"
  by (simp add: du_beta_new_def beta_of_def du_az_new_value)

lemma sq_beta_new_value: "sq_beta_new = Inr (2765 / 17800 - lam * (11223 / 50000000000000))"
  by (simp add: sq_beta_new_def beta_of_def sq_az_new_value)

lemma th_beta_new_value: "th_beta_new = Inr (1615 / 33500 - lam * (11223 / 50000000000000))"
  by (simp add: th_beta_new_def beta_of_def th_az_new_value)

lemma du_bmf_new_value: "du_bmf_new = Inr (500000000 / 24988777)"
  by (simp add: du_bmf_new_def bmf_of_def du_beta_new_value np_truediv_def du_gamma_def lam_def)

lemma sq_bmf_new_value: "sq_bmf_new = Inr (44500000000 / 12251501153)"
  by (simp add: sq_bmf_new_def bmf_of_def sq_beta_new_value np_truediv_def sq_gamma_def lam_def)

lemma th_bmf_new_value: "th_bmf_new = Inr (33500000000 / 5634248059)"
  by (simp add: th_bmf_new_def bmf_of_def th_beta_new_value np_truediv_def th_gamma_def lam_def)

lemma du_percent_change_value: "du_percent_change = Inr (1122300 / 24988777)"
  by (simp add: du_percent_change_def percent_change_of_def du_bmf_value du_bmf_new_value
      np_truediv_def)

lemma sq_percent_change_value: "sq_percent_change = Inr (3444300 / 422465557)"
  by (simp add: sq_percent_change_def percent_change_of_def sq_bmf_value sq_bmf_new_value
      np_truediv_def)

lemma th_percent_change_value: "th_percent_change = Inr (75194100 / 5634248059)"
  by (simp add: th_percent_change_def percent_change_of_def th_bmf_value th_bmf_new_value
      np_truediv_def)

lemma percent_change_of_positive:
  assumes "0 < old" and "old < new"
  shows "\<exists>p. percent_change_of (Inr new) (Inr old) = Inr p \<and> 0 < p"
  using assms by (simp add: percent_change_of_def np_truediv_def)

lemma ex_InrI: "r = Inr v \<Longrightarrow> P v \<Longrightarrow> \<exists>b. r = Inr b \<and> P b"
  by blast

text \<open>
  C6. On the notebook's literals no division has a zero divisor: the three weight sums
  \<open>\<Sum> \<phi>\<^sub>i z\<^sub>i\<close> are nonzero, driving force plus gamma is nonzero for each organism
  in the baseline and in the perturbed computation, and every quotient of the three
  cells, the percent changes included, is therefore a number.
\<close>

theorem no_zero_divisor_on_literals:
  "np_dot du_phi z \<noteq> 0 \<and> np_dot sq_phi z \<noteq> 0 \<and> np_dot th_phi z \<noteq> 0
   \<and> (\<Sum>i<3. el du_phi i * el z i) = 0.079
   \<and> (\<Sum>i<3. el sq_phi i * el z i) = 0.178
   \<and> (\<Sum>i<3. el th_phi i * el z i) = 0.335
   \<and> (\<exists>b. du_beta = Inr b \<and> b + du_gamma \<noteq> 0)
   \<and> (\<exists>b. sq_beta = Inr b \<and> b + sq_gamma \<noteq> 0)
   \<and> (\<exists>b. th_beta = Inr b \<and> b + th_gamma \<noteq> 0)
   \<and> (\<exists>b. du_beta_new = Inr b \<and> b + du_gamma \<noteq> 0)
   \<and> (\<exists>b. sq_beta_new = Inr b \<and> b + sq_gamma \<noteq> 0)
   \<and> (\<exists>b. th_beta_new = Inr b \<and> b + th_gamma \<noteq> 0)
   \<and> defined delta_gpgp_plastic_conc
   \<and> defined du_az \<and> defined sq_az \<and> defined th_az
   \<and> defined du_bmf \<and> defined sq_bmf \<and> defined th_bmf
   \<and> defined du_az_new \<and> defined sq_az_new \<and> defined th_az_new
   \<and> defined du_bmf_new \<and> defined sq_bmf_new \<and> defined th_bmf_new
   \<and> defined du_percent_change \<and> defined sq_percent_change \<and> defined th_percent_change"
proof -
  have dots: "np_dot du_phi z \<noteq> 0" "np_dot sq_phi z \<noteq> 0" "np_dot th_phi z \<noteq> 0"
    by (simp_all add: np_dot_du np_dot_sq np_dot_th)
  have sums: "(\<Sum>i<3. el du_phi i * el z i) = 0.079" "(\<Sum>i<3. el sq_phi i * el z i) = 0.178"
    "(\<Sum>i<3. el th_phi i * el z i) = 0.335"
    by (simp_all add: np_dot_sum [symmetric] np_dot_du np_dot_sq np_dot_th)
  have base: "\<exists>b. du_beta = Inr b \<and> b + du_gamma \<noteq> 0"
    "\<exists>b. sq_beta = Inr b \<and> b + sq_gamma \<noteq> 0"
    "\<exists>b. th_beta = Inr b \<and> b + th_gamma \<noteq> 0"
    by (rule ex_InrI [OF du_beta_value], simp add: du_gamma_def,
        rule ex_InrI [OF sq_beta_value], simp add: sq_gamma_def,
        rule ex_InrI [OF th_beta_value], simp add: th_gamma_def)
  have pert: "\<exists>b. du_beta_new = Inr b \<and> b + du_gamma \<noteq> 0"
    "\<exists>b. sq_beta_new = Inr b \<and> b + sq_gamma \<noteq> 0"
    "\<exists>b. th_beta_new = Inr b \<and> b + th_gamma \<noteq> 0"
    by (rule ex_InrI [OF du_beta_new_value], simp add: du_gamma_def lam_def,
        rule ex_InrI [OF sq_beta_new_value], simp add: sq_gamma_def lam_def,
        rule ex_InrI [OF th_beta_new_value], simp add: th_gamma_def lam_def)
  have d: "defined delta_gpgp_plastic_conc"
    "defined du_az" "defined sq_az" "defined th_az"
    "defined du_bmf" "defined sq_bmf" "defined th_bmf"
    "defined du_az_new" "defined sq_az_new" "defined th_az_new"
    "defined du_bmf_new" "defined sq_bmf_new" "defined th_bmf_new"
    "defined du_percent_change" "defined sq_percent_change" "defined th_percent_change"
    by (simp_all add: delta_value du_az_value sq_az_value th_az_value
        du_bmf_value sq_bmf_value th_bmf_value
        du_az_new_value sq_az_new_value th_az_new_value
        du_bmf_new_value sq_bmf_new_value th_bmf_new_value
        du_percent_change_value sq_percent_change_value th_percent_change_value)
  note facts = dots sums base pert d
  show ?thesis
    by (intro conjI) (rule facts)+
qed

text \<open>
  C7. The perturbed variant adds the one scalar \<open>lam \<times> delta_gpgp_plastic_conc\<close> to
  every entry of the digestibility array and evaluates the baseline's expressions on
  the result: for any array, multiplier and delta, and for the three organisms, whose
  diet fractions, concentrations and gamma are the baseline's.
\<close>

theorem perturbed_is_baseline_on_shifted_array:
  assumes "delta = Inr d"
  shows "a_new_of a l delta = Inr (np_add_scalar a (l * d))
    \<and> (\<forall>i<3. el (np_add_scalar a (l * d)) i = el a i + l * d)
    \<and> az_new_of (a_new_of a l delta) phi zv = az_of (np_add_scalar a (l * d)) phi zv
    \<and> (\<exists>d0. delta_gpgp_plastic_conc = Inr d0
         \<and> du_a_new = Inr (np_add_scalar du_a (lam * d0))
         \<and> sq_a_new = Inr (np_add_scalar sq_a (lam * d0))
         \<and> th_a_new = Inr (np_add_scalar th_a (lam * d0))
         \<and> du_bmf_new = bmf_of (beta_of (az_of (np_add_scalar du_a (lam * d0)) du_phi z)) du_gamma
         \<and> sq_bmf_new = bmf_of (beta_of (az_of (np_add_scalar sq_a (lam * d0)) sq_phi z)) sq_gamma
         \<and> th_bmf_new = bmf_of (beta_of (az_of (np_add_scalar th_a (lam * d0)) th_phi z)) th_gamma
         \<and> du_bmf = bmf_of (beta_of (az_of du_a du_phi z)) du_gamma
         \<and> sq_bmf = bmf_of (beta_of (az_of sq_a sq_phi z)) sq_gamma
         \<and> th_bmf = bmf_of (beta_of (az_of th_a th_phi z)) th_gamma)"
proof -
  have g1: "a_new_of a l delta = Inr (np_add_scalar a (l * d))"
    by (simp add: assms a_new_of_Inr)
  have g2: "\<forall>i<3. el (np_add_scalar a (l * d)) i = el a i + l * d"
    by (simp add: el_np_add_scalar)
  have g3: "az_new_of (a_new_of a l delta) phi zv = az_of (np_add_scalar a (l * d)) phi zv"
    by (simp add: g1 az_new_of_Inr)
  have new: "du_bmf_new
        = bmf_of (beta_of (az_of (np_add_scalar du_a (lam * (11223 / 50000000000000))) du_phi z)) du_gamma"
    "sq_bmf_new
        = bmf_of (beta_of (az_of (np_add_scalar sq_a (lam * (11223 / 50000000000000))) sq_phi z)) sq_gamma"
    "th_bmf_new
        = bmf_of (beta_of (az_of (np_add_scalar th_a (lam * (11223 / 50000000000000))) th_phi z)) th_gamma"
    by (simp_all only: du_bmf_new_def du_beta_new_def du_az_new_def du_a_new_value
        sq_bmf_new_def sq_beta_new_def sq_az_new_def sq_a_new_value
        th_bmf_new_def th_beta_new_def th_az_new_def th_a_new_value az_new_of_Inr)
  have old: "du_bmf = bmf_of (beta_of (az_of du_a du_phi z)) du_gamma"
    "sq_bmf = bmf_of (beta_of (az_of sq_a sq_phi z)) sq_gamma"
    "th_bmf = bmf_of (beta_of (az_of th_a th_phi z)) th_gamma"
    by (simp_all only: du_bmf_def du_beta_def du_az_def sq_bmf_def sq_beta_def sq_az_def
        th_bmf_def th_beta_def th_az_def)
  have g4: "\<exists>d0. delta_gpgp_plastic_conc = Inr d0
         \<and> du_a_new = Inr (np_add_scalar du_a (lam * d0))
         \<and> sq_a_new = Inr (np_add_scalar sq_a (lam * d0))
         \<and> th_a_new = Inr (np_add_scalar th_a (lam * d0))
         \<and> du_bmf_new = bmf_of (beta_of (az_of (np_add_scalar du_a (lam * d0)) du_phi z)) du_gamma
         \<and> sq_bmf_new = bmf_of (beta_of (az_of (np_add_scalar sq_a (lam * d0)) sq_phi z)) sq_gamma
         \<and> th_bmf_new = bmf_of (beta_of (az_of (np_add_scalar th_a (lam * d0)) th_phi z)) th_gamma
         \<and> du_bmf = bmf_of (beta_of (az_of du_a du_phi z)) du_gamma
         \<and> sq_bmf = bmf_of (beta_of (az_of sq_a sq_phi z)) sq_gamma
         \<and> th_bmf = bmf_of (beta_of (az_of th_a th_phi z)) th_gamma"
    by (rule exI [of _ "11223 / 50000000000000"], intro conjI)
      (rule delta_value du_a_new_value sq_a_new_value th_a_new_value new old)+
  from g1 g2 g3 g4 show ?thesis
    by (intro conjI)
qed

theorem perturbed_is_baseline_on_shifted_array_witness:
  "a_new_of (Array 1 2 3) 10 (Inr (1 / 2)) = Inr (Array 6 7 8)
   \<and> az_new_of (a_new_of (Array 1 2 3) 10 (Inr (1 / 2))) (Array 1 1 1) (Array 1 1 1) = Inr 7"
proof -
  note t = perturbed_is_baseline_on_shifted_array
    [of "Inr (1 / 2)" "1 / 2" "Array 1 2 3" 10 "Array 1 1 1" "Array 1 1 1", OF refl]
  note a = t [THEN conjunct1]
  note b = t [THEN conjunct2, THEN conjunct2, THEN conjunct1]
  show ?thesis
    using a b by (simp add: az_of_def np_truediv_def)
qed

text \<open>
  C9. Shifting every digestibility by the same scalar shifts the weighted digestibility
  by that scalar, provided the weights do not sum to zero; so each organism's perturbed
  driving force is its baseline driving force minus \<open>lam \<times> delta_gpgp_plastic_conc\<close>.
\<close>

theorem uniform_shift_identity:
  assumes "(\<Sum>i<3. el phi i * el zv i) \<noteq> 0"
  shows "az_of (np_add_scalar a c) phi zv = and_then (az_of a phi zv) (\<lambda>x. Inr (x + c))
    \<and> (\<exists>x. az_of a phi zv = Inr x \<and> az_of (np_add_scalar a c) phi zv = Inr (x + c))
    \<and> (\<exists>d. delta_gpgp_plastic_conc = Inr d
         \<and> du_beta_new = and_then du_beta (\<lambda>b. Inr (b - lam * d))
         \<and> sq_beta_new = and_then sq_beta (\<lambda>b. Inr (b - lam * d))
         \<and> th_beta_new = and_then th_beta (\<lambda>b. Inr (b - lam * d)))"
proof -
  from assms have nz: "np_dot phi zv \<noteq> 0"
    by (simp add: np_dot_sum)
  then have g1: "az_of (np_add_scalar a c) phi zv = and_then (az_of a phi zv) (\<lambda>x. Inr (x + c))"
    by (rule az_of_shift)
  have g2: "\<exists>x. az_of a phi zv = Inr x \<and> az_of (np_add_scalar a c) phi zv = Inr (x + c)"
    using nz by (simp add: g1 az_of_spec)
  have g3: "\<exists>d. delta_gpgp_plastic_conc = Inr d
         \<and> du_beta_new = and_then du_beta (\<lambda>b. Inr (b - lam * d))
         \<and> sq_beta_new = and_then sq_beta (\<lambda>b. Inr (b - lam * d))
         \<and> th_beta_new = and_then th_beta (\<lambda>b. Inr (b - lam * d))"
    by (rule exI [of _ "11223 / 50000000000000"])
      (simp add: delta_value du_beta_new_value sq_beta_new_value th_beta_new_value
        du_beta_value sq_beta_value th_beta_value)
  from g1 g2 g3 show ?thesis
    by (intro conjI)
qed

theorem uniform_shift_identity_witness:
  "(\<Sum>i<3. el sq_phi i * el z i) \<noteq> 0
   \<and> az_of sq_a sq_phi z = Inr (15035 / 17800)
   \<and> az_of (np_add_scalar sq_a (1 / 10)) sq_phi z = Inr (15035 / 17800 + 1 / 10)"
proof -
  have nz: "(\<Sum>i<3. el sq_phi i * el z i) \<noteq> 0"
    by (simp add: np_dot_sum [symmetric] np_dot_sq)
  note t = uniform_shift_identity [OF nz, of sq_a "1 / 10", THEN conjunct1]
  show ?thesis
    using nz t sq_az_value by (simp add: sq_az_def)
qed

lemma ex_Inr_lessI:
  "r = Inr v \<Longrightarrow> r' = Inr v' \<Longrightarrow> v < v'
     \<Longrightarrow> \<exists>old new. r = Inr old \<and> r' = Inr new \<and> old < new"
  by blast

lemma bar_heights_value:
  "bar_heights
     = [Inr (1122300 / 24988777), Inr (3444300 / 422465557), Inr (75194100 / 5634248059)]"
  by (simp only: bar_heights_def du_percent_change_value sq_percent_change_value
      th_percent_change_value)

text \<open>
  C10. With \<open>lam = 1e5\<close> and the notebook's strictly positive delta, each organism's
  perturbed BMF is strictly greater than its baseline BMF, and the three percent
  changes handed to the bar chart are strictly positive.
\<close>

theorem perturbed_bmf_exceeds_baseline:
  "lam = 100000
   \<and> (\<exists>d. delta_gpgp_plastic_conc = Inr d \<and> 0 < d)
   \<and> (\<exists>old new. du_bmf = Inr old \<and> du_bmf_new = Inr new \<and> old < new)
   \<and> (\<exists>old new. sq_bmf = Inr old \<and> sq_bmf_new = Inr new \<and> old < new)
   \<and> (\<exists>old new. th_bmf = Inr old \<and> th_bmf_new = Inr new \<and> old < new)
   \<and> (\<exists>p1 p2 p3. bar_heights = [Inr p1, Inr p2, Inr p3] \<and> 0 < p1 \<and> 0 < p2 \<and> 0 < p3)"
proof -
  have g1: "\<exists>d. delta_gpgp_plastic_conc = Inr d \<and> 0 < d"
    by (rule ex_InrI [OF delta_value]) simp
  have g2: "\<exists>old new. du_bmf = Inr old \<and> du_bmf_new = Inr new \<and> old < new"
    by (rule ex_Inr_lessI [OF du_bmf_value du_bmf_new_value]) simp
  have g3: "\<exists>old new. sq_bmf = Inr old \<and> sq_bmf_new = Inr new \<and> old < new"
    by (rule ex_Inr_lessI [OF sq_bmf_value sq_bmf_new_value]) simp
  have g4: "\<exists>old new. th_bmf = Inr old \<and> th_bmf_new = Inr new \<and> old < new"
    by (rule ex_Inr_lessI [OF th_bmf_value th_bmf_new_value]) simp
  have g5: "\<exists>p1 p2 p3. bar_heights = [Inr p1, Inr p2, Inr p3] \<and> 0 < p1 \<and> 0 < p2 \<and> 0 < p3"
    by (intro exI conjI, rule bar_heights_value) simp_all
  from lam_def g1 g2 g3 g4 g5 show ?thesis
    by (intro conjI)
qed

end
